theory Spec2Isabelle
  imports Main "HOL-Library.Char_ord" "HOL-Library.List_Lexorder"
begin

section \<open>dextIR: the step trace (dex/dextIR/DextIR.py)\<close>

subsection \<open>Data\<close>

text \<open>
  Modelled from the spec: the classes StepKind, LocIR and StepIR are imported by
  DextIR.py from modules that are not part of the sources at hand. Their fields are the
  ones the code reads and writes: \<^verbatim>\<open>step.current_function\<close>,
  \<^verbatim>\<open>step.current_location.path\<close>, \<^verbatim>\<open>step.step_kind\<close>, and
  \<^verbatim>\<open>LocIR(path=..., lineno=..., column=...)\<close> in Debuggers.py. An attribute holding
  Python's \<^verbatim>\<open>None\<close> is \<open>None\<close>; a step whose kind has not been assigned has
  \<open>step_kind = None\<close>.
\<close>

datatype StepKind = FUNC | FUNC_EXTERNAL | FUNC_UNKNOWN | SAME | FORWARD | BACKWARD | UNKNOWN

record LocIR =
  path :: "string option"
  lineno :: "int option"
  column :: "int option"

record StepIR =
  current_function :: "string option"
  current_location :: LocIR
  step_kind :: "StepKind option"

text \<open>
  The trace. The builder, debugger and command descriptions are carried, never inspected,
  so their types are parameters; each of the three may be \<^verbatim>\<open>None\<close>.
\<close>

record ('b, 'd, 'c) DextIR =
  dexter_version :: string
  executable_path :: string
  source_paths :: "string list"
  builder :: "'b option"
  debugger :: "'d option"
  commands :: "'c option"
  steps :: "StepIR list"

text \<open>
  The comparison operators of LocIR (\<^verbatim>\<open>==\<close>, \<^verbatim>\<open>>\<close>, \<^verbatim>\<open><\<close>) are defined in the
  absent LocIR module. \<open>new_step\<close> takes them as a parameter.
\<close>

record loc_cmp =
  loc_eq :: "LocIR \<Rightarrow> LocIR \<Rightarrow> bool"
  loc_gt :: "LocIR \<Rightarrow> LocIR \<Rightarrow> bool"
  loc_lt :: "LocIR \<Rightarrow> LocIR \<Rightarrow> bool"

text \<open>
  Modelled from the spec: the order of locations, for the concrete scenarios. Two
  locations are equal when path, line and column are identical; the order is the
  lexicographic one on (line, column). The spec fixes no position for an absent line or
  column; here an absent value lies below every number, which keeps the order total.
\<close>

definition opt_lt :: "int option \<Rightarrow> int option \<Rightarrow> bool" where
  "opt_lt a b =
     (case b of
        None \<Rightarrow> False
      | Some y \<Rightarrow> (case a of None \<Rightarrow> True | Some x \<Rightarrow> x < y))"

definition LocIR_eq :: "LocIR \<Rightarrow> LocIR \<Rightarrow> bool" where
  "LocIR_eq a b = (path a = path b \<and> lineno a = lineno b \<and> column a = column b)"

definition LocIR_lt :: "LocIR \<Rightarrow> LocIR \<Rightarrow> bool" where
  "LocIR_lt a b =
     (if lineno a = lineno b then opt_lt (column a) (column b)
      else opt_lt (lineno a) (lineno b))"

definition LocIR_gt :: "LocIR \<Rightarrow> LocIR \<Rightarrow> bool" where
  "LocIR_gt a b = LocIR_lt b a"

definition LocIR_cmp :: loc_cmp where
  "LocIR_cmp = \<lparr>loc_eq = LocIR_eq, loc_gt = LocIR_gt, loc_lt = LocIR_lt\<rparr>"

subsection \<open>Operations\<close>

text \<open>
  \<^verbatim>\<open>_step_kind_func(source_paths, step)\<close>. \<^verbatim>\<open>source_paths\<close> is declared
  \<^verbatim>\<open>List[str]\<close>, so the absent path is never a member of it.
\<close>

definition step_kind_func :: "string list \<Rightarrow> StepIR \<Rightarrow> StepKind" where
  "step_kind_func srcs step =
     (case path (current_location step) of
        None \<Rightarrow> FUNC_UNKNOWN
      | Some p \<Rightarrow> if p \<in> set srcs then FUNC else FUNC_EXTERNAL)"

text \<open>
  \<^verbatim>\<open>DextIR.new_step\<close>: the step object is updated in place and the same object is
  appended and returned; the model returns the new trace and the updated step. The last
  \<^verbatim>\<open>elif\<close> has no \<^verbatim>\<open>else\<close>: when it fails too the step is left as it came.
  \<^verbatim>\<open>self.steps[-1]\<close> raises IndexError exactly on the empty list.
\<close>

definition new_step ::
  "loc_cmp \<Rightarrow> ('b, 'd, 'c) DextIR \<Rightarrow> StepIR \<Rightarrow> ('b, 'd, 'c) DextIR \<times> StepIR" where
  "new_step cmp self step =
     (let step' =
        (if current_function step = None then step\<lparr>step_kind := Some UNKNOWN\<rparr>
         else if steps self = []
           then step\<lparr>step_kind := Some (step_kind_func (source_paths self) step)\<rparr>
         else
           (let prev_step = last (steps self) in
            if current_function prev_step = None then step\<lparr>step_kind := Some UNKNOWN\<rparr>
            else if current_function prev_step \<noteq> current_function step
              then step\<lparr>step_kind := Some (step_kind_func (source_paths self) step)\<rparr>
            else if loc_eq cmp (current_location prev_step) (current_location step)
              then step\<lparr>step_kind := Some SAME\<rparr>
            else if loc_gt cmp (current_location prev_step) (current_location step)
              then step\<lparr>step_kind := Some BACKWARD\<rparr>
            else if loc_lt cmp (current_location prev_step) (current_location step)
              then step\<lparr>step_kind := Some FORWARD\<rparr>
            else step))
      in (self\<lparr>steps := steps self @ [step']\<rparr>, step'))"

definition num_steps :: "('b, 'd, 'c) DextIR \<Rightarrow> nat" where
  "num_steps self = length (steps self)"

definition clear_steps :: "('b, 'd, 'c) DextIR \<Rightarrow> ('b, 'd, 'c) DextIR" where
  "clear_steps self = self\<lparr>steps := []\<rparr>"

text \<open>Appending a sequence of steps, one \<open>new_step\<close> after the other.\<close>

fun new_steps :: "loc_cmp \<Rightarrow> ('b, 'd, 'c) DextIR \<Rightarrow> StepIR list \<Rightarrow> ('b, 'd, 'c) DextIR" where
  "new_steps cmp self [] = self"
| "new_steps cmp self (s # ss) = new_steps cmp (fst (new_step cmp self s)) ss"

section \<open>Debuggers: discovery, listing and the run (dex/debugger/Debuggers.py)\<close>

subsection \<open>Exceptions\<close>

text \<open>
  Every exception the code raises, catches or lets through is a value.
  \<open>CommandParseError\<close> carries its attributes \<^verbatim>\<open>filename\<close>, \<^verbatim>\<open>lineno\<close>,
  \<^verbatim>\<open>info\<close>, \<^verbatim>\<open>src\<close> and \<^verbatim>\<open>caret\<close>, in this order. \<open>DebuggerException\<close> is
  built either from a message or from the exception it wraps. \<open>OtherError\<close> stands
  for any exception of a collaborator that the code does not name.
\<close>

datatype error =
    AssertionError
  | ImportError
  | NotImplementedError
  | KeyError string
  | IndexError
  | ValueError
  | AttributeError
  | CommandParseError string int string string string
  | CalledProcessError int
  | DebuggerException exception_arg
  | OtherError string
and exception_arg = Message string | Cause error

subsection \<open>Backends\<close>

text \<open>
  Modelled from the spec: the backends (subclasses of DebuggerBase) are not part of the
  sources at hand. A debugger instance is what the listing reads of it. Reading
  \<^verbatim>\<open>debugger.version.splitlines()\<close> raises AttributeError when the attribute is
  missing or holds \<^verbatim>\<open>None\<close>: both are \<open>None\<close> here; likewise for
  \<^verbatim>\<open>loading_error\<close>. A missing \<^verbatim>\<open>loading_error_trace\<close> and one that holds
  \<^verbatim>\<open>None\<close> both end as \<^verbatim>\<open>error_trace = None\<close>, and both are \<open>None\<close> here.
\<close>

record debugger_obj =
  dbg_name :: string
  dbg_is_available :: bool
  dbg_version :: "string option"
  loading_error :: "string option"
  loading_error_trace :: "string list option"

text \<open>
  A class found in a module: its \<^verbatim>\<open>__name__\<close>, whether it is a subclass of
  DebuggerBase, what \<^verbatim>\<open>get_option_name()\<close> returns or raises, and what calling the
  class (with the context and the step collection) returns or raises.
\<close>

record debugger_class =
  cls_name :: string
  is_DebuggerBase_subclass :: bool
  get_option_name :: "error + string"
  construct :: "error + debugger_obj"

text \<open>
  The part of the file system and of the import machinery that discovery reads:
  \<^verbatim>\<open>os.walk\<close> over the directory of Debuggers.py gives the directories with their
  file names, and loading module \<open>m\<close> from directory \<open>d\<close> either raises or gives the
  module, of which \<^verbatim>\<open>inspect.getmembers(module, inspect.isclass)\<close> lists the classes.
\<close>

record file_system =
  os_walk :: "(string \<times> string list) list"
  load_module :: "string \<Rightarrow> string \<Rightarrow> error + debugger_class list"

text \<open>
  A dict object: its identity and its items in insertion order. Discovery creates one
  dict and fills it before anything else can see it; nothing changes it afterwards.
\<close>

record registry =
  dict_id :: nat
  dict_items :: "(string \<times> debugger_class) list"

text \<open>
  The state of the process that discovery reads and writes: the function attribute
  \<^verbatim>\<open>_get_potential_debuggers.cached\<close>, the class attribute
  \<^verbatim>\<open>Debuggers._potential_debuggers\<close> (\<open>None\<close>: not set, reading it raises
  AttributeError), and the number of dicts created so far, the identity of the next one.
\<close>

record py_state =
  cached :: "registry option"
  potential :: "registry option"
  next_id :: nat

subsection \<open>Discovery\<close>

text \<open>\<^verbatim>\<open>f.endswith('.py') and not f.startswith('__')\<close>\<close>

definition is_potential_module :: "string \<Rightarrow> bool" where
  "is_potential_module f =
     (3 \<le> length f \<and> drop (length f - 3) f = ''.py'' \<and> take 2 f \<noteq> ''__'')"

text \<open>
  \<^verbatim>\<open>os.path.splitext(f)[0]\<close> for a file name that ends in \<^verbatim>\<open>.py\<close>: the
  extension is cut off, unless only dots precede it (leading dots are no extension).
\<close>

definition splitext_root :: "string \<Rightarrow> string" where
  "splitext_root f =
     (let r = take (length f - 3) f
      in if list_all (\<lambda>c. c = CHR ''.'') r then f else r)"

text \<open>
  The loop over the classes of one module. The result is the cache as the loop leaves
  it and the exception that ended it, if any: an exception leaves the dict as far as it
  was filled. Only NotImplementedError from \<^verbatim>\<open>get_option_name\<close> is caught.
\<close>

fun scan_classes ::
  "(string \<times> debugger_class) list \<Rightarrow> debugger_class list \<Rightarrow>
   (string \<times> debugger_class) list \<times> error option" where
  "scan_classes cache [] = (cache, None)"
| "scan_classes cache (c # cs) =
     (if is_DebuggerBase_subclass c then
        (case get_option_name c of
           Inl e \<Rightarrow> if e = NotImplementedError then scan_classes cache cs else (cache, Some e)
         | Inr key \<Rightarrow>
             (case map_of cache key of
                Some c0 \<Rightarrow>
                  if cls_name c0 = cls_name c then scan_classes cache cs
                  else (cache, Some AssertionError)
              | None \<Rightarrow> scan_classes (cache @ [(key, c)]) cs))
      else scan_classes cache cs)"

text \<open>The loop over the modules of one directory. Only ImportError is caught.\<close>

fun scan_modules ::
  "(string \<Rightarrow> string \<Rightarrow> error + debugger_class list) \<Rightarrow> string \<Rightarrow>
   (string \<times> debugger_class) list \<Rightarrow> string list \<Rightarrow>
   (string \<times> debugger_class) list \<times> error option" where
  "scan_modules ld d cache [] = (cache, None)"
| "scan_modules ld d cache (m # ms) =
     (case ld d m of
        Inl e \<Rightarrow> if e = ImportError then scan_modules ld d cache ms else (cache, Some e)
      | Inr classes \<Rightarrow>
          (case scan_classes cache classes of
             (cache', None) \<Rightarrow> scan_modules ld d cache' ms
           | (cache', Some e) \<Rightarrow> (cache', Some e)))"

text \<open>The loop over the directories of the walk.\<close>

fun scan_dirs ::
  "(string \<Rightarrow> string \<Rightarrow> error + debugger_class list) \<Rightarrow>
   (string \<times> debugger_class) list \<Rightarrow> (string \<times> string list) list \<Rightarrow>
   (string \<times> debugger_class) list \<times> error option" where
  "scan_dirs ld cache [] = (cache, None)"
| "scan_dirs ld cache ((d, files) # ds) =
     (case scan_modules ld d cache (map splitext_root (filter is_potential_module files)) of
        (cache', None) \<Rightarrow> scan_dirs ld cache' ds
      | (cache', Some e) \<Rightarrow> (cache', Some e))"

text \<open>
  \<^verbatim>\<open>_get_potential_debuggers()\<close>: the cached dict when the attribute is set;
  otherwise a new dict is stored in the attribute first and filled by the scan.
\<close>

definition get_potential_debuggers ::
  "file_system \<Rightarrow> py_state \<Rightarrow> (error + registry) \<times> py_state" where
  "get_potential_debuggers fs st =
     (case cached st of
        Some d \<Rightarrow> (Inr d, st)
      | None \<Rightarrow>
          (case scan_dirs (load_module fs) [] (os_walk fs) of
             (cache, err) \<Rightarrow>
               (let d = \<lparr>dict_id = next_id st, dict_items = cache\<rparr>;
                    st' = st\<lparr>cached := Some d, next_id := Suc (next_id st)\<rparr>
                in (case err of None \<Rightarrow> (Inr d, st') | Some e \<Rightarrow> (Inl e, st')))))"

text \<open>\<^verbatim>\<open>Debuggers.potential_debuggers()\<close>\<close>

definition potential_debuggers ::
  "file_system \<Rightarrow> py_state \<Rightarrow> (error + registry) \<times> py_state" where
  "potential_debuggers fs st =
     (case potential st of
        Some d \<Rightarrow> (Inr d, st)
      | None \<Rightarrow>
          (case get_potential_debuggers fs st of
             (Inl e, st') \<Rightarrow> (Inl e, st')
           | (Inr d, st') \<Rightarrow> (Inr d, st'\<lparr>potential := Some d\<rparr>)))"

subsection \<open>Listing\<close>

text \<open>
  \<^verbatim>\<open>str.splitlines()\<close> on strings of code points below 256: a line ends at
  \<^verbatim>\<open>\n\<close>, \<^verbatim>\<open>\r\<close>, \<^verbatim>\<open>\r\n\<close>, \<^verbatim>\<open>\v\<close>, \<^verbatim>\<open>\f\<close>, \<^verbatim>\<open>\x1c\<close>,
  \<^verbatim>\<open>\x1d\<close>, \<^verbatim>\<open>\x1e\<close> or \<^verbatim>\<open>\x85\<close>; the line ends are dropped and there is
  no empty last line. The flag says that the previous character was \<^verbatim>\<open>\r\<close>, the
  second argument is the line read so far, reversed.
\<close>

definition is_linebreak :: "char \<Rightarrow> bool" where
  "is_linebreak c = (of_char c \<in> set [10, 11, 12, 13, 28, 29, 30, 133 :: nat])"

fun splitlines_from :: "bool \<Rightarrow> string \<Rightarrow> string \<Rightarrow> string list" where
  "splitlines_from after_cr cur [] = (if cur = [] then [] else [rev cur])"
| "splitlines_from after_cr cur (c # s) =
     (if after_cr \<and> of_char c = (10 :: nat) then splitlines_from False cur s
      else if is_linebreak c then rev cur # splitlines_from (of_char c = (13 :: nat)) [] s
      else splitlines_from False (c # cur) s)"

definition splitlines :: "string \<Rightarrow> string list" where
  "splitlines s = splitlines_from False [] s"

text \<open>\<^verbatim>\<open>str.rstrip()\<close>: trailing whitespace is removed.\<close>

definition is_space :: "char \<Rightarrow> bool" where
  "is_space c =
     (of_char c \<in> set [9, 10, 11, 12, 13, 28, 29, 30, 31, 32, 133, 160 :: nat])"

definition rstrip :: "string \<Rightarrow> string" where
  "rstrip s = rev (dropWhile is_space (rev s))"

text \<open>\<^verbatim>\<open>'{name: <N}'.format(name=s)\<close>: left-aligned, filled with spaces to width N.\<close>

definition ljust :: "nat \<Rightarrow> string \<Rightarrow> string" where
  "ljust n s = s @ replicate (n - length s) CHR '' ''"

text \<open>\<^verbatim>\<open>sep.join(xs)\<close>\<close>

fun join :: "string \<Rightarrow> string list \<Rightarrow> string" where
  "join sep [] = []"
| "join sep [x] = x"
| "join sep (x # y # ys) = x @ sep @ join sep (y # ys)"

text \<open>
  The class \<^verbatim>\<open>LoadedDebugger\<close> that \<^verbatim>\<open>_populate_debugger_cache\<close> builds for each
  key. An attribute that was not set is \<open>None\<close> (reading it raises AttributeError);
  \<^verbatim>\<open>error_trace\<close> may be set to \<^verbatim>\<open>None\<close>, which is \<open>Some None\<close>.
\<close>

record LoadedDebugger =
  option_name :: string
  full_name :: string
  is_available :: bool
  version :: "string list option"
  error :: "string list option"
  error_trace :: "string list option option"

text \<open>
  \<^verbatim>\<open>Debuggers.load(key)\<close>: the class registered under the key is called; whatever it
  raises is raised by \<open>load\<close>. (The Timer around it only reports the time taken.)
\<close>

definition load ::
  "file_system \<Rightarrow> string \<Rightarrow> py_state \<Rightarrow> (error + debugger_obj) \<times> py_state" where
  "load fs key st =
     (case potential_debuggers fs st of
        (Inl e, st') \<Rightarrow> (Inl e, st')
      | (Inr d, st') \<Rightarrow>
          (case map_of (dict_items d) key of
             None \<Rightarrow> (Inl (KeyError key), st')
           | Some c \<Rightarrow> (construct c, st')))"

text \<open>The body of the loop of \<^verbatim>\<open>_populate_debugger_cache\<close>, after the load.\<close>

definition loaded_debugger :: "string \<Rightarrow> debugger_obj \<Rightarrow> LoadedDebugger" where
  "loaded_debugger key dbg =
     \<lparr>option_name = key,
      full_name = ''['' @ dbg_name dbg @ '']'',
      is_available = dbg_is_available dbg,
      version =
        (if dbg_is_available dbg
         then Some (case dbg_version dbg of None \<Rightarrow> [[]] | Some v \<Rightarrow> splitlines v)
         else None),
      error =
        (if dbg_is_available dbg then None
         else Some (case loading_error dbg of None \<Rightarrow> [[]] | Some e \<Rightarrow> splitlines e)),
      error_trace =
        (if dbg_is_available dbg then None else Some (loading_error_trace dbg))\<rparr>"

fun populate_loop ::
  "file_system \<Rightarrow> string list \<Rightarrow> py_state \<Rightarrow> (error + LoadedDebugger list) \<times> py_state" where
  "populate_loop fs [] st = (Inr [], st)"
| "populate_loop fs (key # keys) st =
     (case load fs key st of
        (Inl e, st') \<Rightarrow> (Inl e, st')
      | (Inr dbg, st') \<Rightarrow>
          (case populate_loop fs keys st' of
             (Inl e, st'') \<Rightarrow> (Inl e, st'')
           | (Inr ds, st'') \<Rightarrow> (Inr (loaded_debugger key dbg # ds), st'')))"

text \<open>\<^verbatim>\<open>Debuggers._populate_debugger_cache()\<close>: the keys in sorted order.\<close>

definition populate_debugger_cache ::
  "file_system \<Rightarrow> py_state \<Rightarrow> (error + LoadedDebugger list) \<times> py_state" where
  "populate_debugger_cache fs st =
     (case potential_debuggers fs st of
        (Inl e, st') \<Rightarrow> (Inl e, st')
      | (Inr d, st') \<Rightarrow> populate_loop fs (sort (map fst (dict_items d))) st')"

text \<open>
  The end of the loop body of \<^verbatim>\<open>Debuggers.list\<close>, in verbose mode: a non-empty
  \<^verbatim>\<open>verbose_info\<close> is appended, every line indented and stripped on the right.
\<close>

definition with_verbose_info :: "string \<Rightarrow> string list option \<Rightarrow> string" where
  "with_verbose_info msg verbose_info =
     (case verbose_info of
        None \<Rightarrow> msg
      | Some ls \<Rightarrow>
          if ls = [] then msg
          else msg @ [CHR 10, CHR 10] @
               join [CHR 10] (map (\<lambda>l. ''        '' @ rstrip l) ls) @ [CHR 10])"

text \<open>
  The loop body of \<^verbatim>\<open>Debuggers.list\<close> for one entry: \<^verbatim>\<open>d.version[0]\<close> and
  \<^verbatim>\<open>d.error[0]\<close> raise IndexError on an empty list.
\<close>

definition list_entry :: "bool \<Rightarrow> nat \<Rightarrow> nat \<Rightarrow> LoadedDebugger \<Rightarrow> error + string" where
  "list_entry verbose max_o_len max_n_len d =
     (let option_name' = ljust max_o_len (option_name d);
          full_name' = ljust max_n_len (full_name d)
      in if is_available d then
           (case version d of
              None \<Rightarrow> Inl AttributeError
            | Some v \<Rightarrow>
                (case v of
                   [] \<Rightarrow> Inl IndexError
                 | v0 # vs \<Rightarrow>
                     (let msg = ''<b>'' @ option_name' @ '' '' @ full_name' @ ''</>'' @ '' '' @
                                ''<g>YES</>'' @ '' '' @ ''<b>('' @ v0 @ '')</>''
                      in if verbose
                         then Inr (with_verbose_info msg
                                (if vs \<noteq> [] then Some (v @ [[CHR 10]]) else None))
                         else Inr msg)))
         else
           (case error d of
              None \<Rightarrow> Inl AttributeError
            | Some er \<Rightarrow>
                (case er of
                   [] \<Rightarrow> Inl IndexError
                 | e0 # es \<Rightarrow>
                     (let msg = ''<y>'' @ option_name' @ '' '' @ full_name' @ ''</>'' @ '' '' @
                                ''<r>NO</> '' @ '' '' @ ''<y>('' @ e0 @ '')</>''
                      in if verbose
                         then (case error_trace d of
                                 None \<Rightarrow> Inl AttributeError
                               | Some tr \<Rightarrow> Inr (with_verbose_info msg tr))
                         else Inr msg))))"

fun list_entries ::
  "bool \<Rightarrow> nat \<Rightarrow> nat \<Rightarrow> LoadedDebugger list \<Rightarrow> error + string list" where
  "list_entries verbose max_o_len max_n_len [] = Inr []"
| "list_entries verbose max_o_len max_n_len (d # ds) =
     (case list_entry verbose max_o_len max_n_len d of
        Inl e \<Rightarrow> Inl e
      | Inr msg \<Rightarrow>
          (case list_entries verbose max_o_len max_n_len ds of
             Inl e \<Rightarrow> Inl e
           | Inr msgs \<Rightarrow> Inr (msg # msgs)))"

text \<open>
  \<^verbatim>\<open>Debuggers.list()\<close>: the result is the text handed to \<^verbatim>\<open>context.o.auto\<close>.
  \<^verbatim>\<open>max\<close> of an empty sequence raises ValueError. \<open>verbose\<close> is
  \<^verbatim>\<open>context.options.verbose\<close>.
\<close>

definition list_debuggers ::
  "file_system \<Rightarrow> bool \<Rightarrow> py_state \<Rightarrow> (error + string) \<times> py_state" where
  "list_debuggers fs verbose st =
     (case populate_debugger_cache fs st of
        (Inl e, st') \<Rightarrow> (Inl e, st')
      | (Inr debuggers, st') \<Rightarrow>
          if debuggers = [] then (Inl ValueError, st')
          else
            (let max_o_len = foldr max (map (\<lambda>d. length (option_name d)) debuggers) 0;
                 max_n_len = foldr max (map (\<lambda>d. length (full_name d)) debuggers) 0
             in (case list_entries verbose max_o_len max_n_len debuggers of
                   Inl e \<Rightarrow> (Inl e, st')
                 | Inr msgs \<Rightarrow> (Inr ([CHR 10] @ join [CHR 10] msgs @ [CHR 10, CHR 10]), st'))))"

subsection \<open>The run\<close>

text \<open>
  Modelled from the spec: the command parser (\<^verbatim>\<open>find_all_commands\<close>), CommandIR and
  the serialisation of the trace are not part of the sources at hand. A command as the
  parser returns it carries \<^verbatim>\<open>path\<close>, \<^verbatim>\<open>lineno\<close> and \<^verbatim>\<open>raw_text\<close>;
  \<^verbatim>\<open>CommandIR(loc=..., raw_text=...)\<close> is what \<^verbatim>\<open>_get_command_infos\<close> builds.
\<close>

record command =
  cmd_path :: "string option"
  cmd_lineno :: "int option"
  cmd_raw_text :: string

record CommandIR =
  loc :: LocIR
  raw_text :: string

type_synonym command_infos = "(string \<times> CommandIR list) list"

text \<open>The fields of \<^verbatim>\<open>context.options\<close> and of \<^verbatim>\<open>context\<close> that the run reads.\<close>

record options =
  executable :: string
  source_files :: "string list"

record run_context =
  ctx_options :: options
  ctx_version :: string
  working_directory :: string

text \<open>
  What the run takes from outside: the command parser, the serialisation of traces to
  and from JSON, pickle, the names of temporary files (by directory and by the number of
  temporaries made before), \<^verbatim>\<open>sys.argv[0]\<close>, \<^verbatim>\<open>os.path.isfile\<close>,
  \<^verbatim>\<open>get_root_directory()\<close>, \<^verbatim>\<open>os.path.join\<close>, \<^verbatim>\<open>sys.executable\<close>,
  \<^verbatim>\<open>Timer.indent\<close>, and the child process, which maps its arguments and the files
  it finds to its exit status and the files it leaves.
\<close>

record ('b, 'd) run_env =
  find_all_commands :: "string list \<Rightarrow> error + (string \<times> command list) list"
  as_json :: "('b, 'd, command_infos) DextIR \<Rightarrow> string"
  importDextIR :: "string \<Rightarrow> error + ('b, 'd, command_infos) DextIR"
  pickle_dumps :: "options \<Rightarrow> string"
  temp_name :: "string \<Rightarrow> nat \<Rightarrow> string"
  argv0 :: string
  isfile :: "string \<Rightarrow> bool"
  root_directory :: string
  path_join :: "string list \<Rightarrow> string"
  sys_executable :: string
  timer_indent :: int
  child_process :: "string list \<Rightarrow> (string \<times> string) list \<Rightarrow> int \<times> (string \<times> string) list"

text \<open>
  What the run does to the outside: the files it has written (path and content, the
  newest first), the number of temporary files made, and the argument lists of the child
  processes started.
\<close>

record os_world =
  files :: "(string \<times> string) list"
  temp_count :: nat
  spawned :: "string list list"

text \<open>\<^verbatim>\<open>'{}'.format(i)\<close> for an integer: its decimal digits, with a minus sign.\<close>

function str_nat :: "nat \<Rightarrow> string" where
  "str_nat n =
     (if n < 10 then [char_of (48 + n)]
      else str_nat (n div 10) @ [char_of (48 + n mod 10)])"
  by pat_completeness auto
termination
  by (relation "measure (\<lambda>n. n)") auto

declare str_nat.simps [simp del]

definition str_int :: "int \<Rightarrow> string" where
  "str_int i = (if i < 0 then ''-'' @ str_nat (nat (- i)) else str_nat (nat i))"

text \<open>
  \<^verbatim>\<open>command_infos[command_type].append(...)\<close>, after the list for a new command
  type has been added at the end of the ordered dict.
\<close>

fun dict_append :: "command_infos \<Rightarrow> string \<Rightarrow> CommandIR \<Rightarrow> command_infos" where
  "dict_append [] t c = [(t, [c])]"
| "dict_append ((k, cs) # kvs) t c =
     (if k = t then (k, cs @ [c]) # kvs else (k, cs) # dict_append kvs t c)"

text \<open>The two loops of \<^verbatim>\<open>_get_command_infos\<close>.\<close>

fun add_commands :: "command_infos \<Rightarrow> string \<Rightarrow> command list \<Rightarrow> command_infos" where
  "add_commands infos t [] = infos"
| "add_commands infos t (c # cs) =
     add_commands
       (dict_append infos t
          \<lparr>loc = \<lparr>path = cmd_path c, lineno = cmd_lineno c, column = None\<rparr>,
           raw_text = cmd_raw_text c\<rparr>)
       t cs"

fun add_command_types :: "command_infos \<Rightarrow> (string \<times> command list) list \<Rightarrow> command_infos" where
  "add_command_types infos [] = infos"
| "add_command_types infos ((t, cs) # rest) = add_command_types (add_commands infos t cs) rest"

definition get_command_infos :: "('b, 'd) run_env \<Rightarrow> run_context \<Rightarrow> error + command_infos" where
  "get_command_infos env ctx =
     (case find_all_commands env (source_files (ctx_options ctx)) of
        Inl e \<Rightarrow> Inl e
      | Inr cmds \<Rightarrow> Inr (add_command_types [] cmds))"

definition empty_debugger_steps :: "run_context \<Rightarrow> ('b, 'd, command_infos) DextIR" where
  "empty_debugger_steps ctx =
     \<lparr>dexter_version = ctx_version ctx,
      executable_path = executable (ctx_options ctx),
      source_paths = source_files (ctx_options ctx),
      builder = None, debugger = None, commands = None, steps = []\<rparr>"

text \<open>
  The message of the DebuggerException raised for a CommandParseError:
  \<^verbatim>\<open>'parser error: <d>{}({}):</> {}\n{}\n{}\n'.format(e.filename, e.lineno, e.info, e.src, e.caret)\<close>
\<close>

definition parser_error_msg :: "string \<Rightarrow> int \<Rightarrow> string \<Rightarrow> string \<Rightarrow> string \<Rightarrow> string" where
  "parser_error_msg fname line info src caret =
     ''parser error: <d>'' @ fname @ ''('' @ str_int line @ ''):</> '' @ info @ [CHR 10] @
     src @ [CHR 10] @ caret @ [CHR 10]"

text \<open>
  \<^verbatim>\<open>get_debugger_steps(context)\<close>, from the outside world \<open>w\<close> to the trace read back
  (or the exception raised) and the world it leaves. Only CommandParseError is caught
  around the parser, only CalledProcessError around the child. The third temporary file
  is deleted when its block ends; reading a file that is not there raises.
\<close>

definition get_debugger_steps ::
  "('b, 'd) run_env \<Rightarrow> run_context \<Rightarrow> os_world \<Rightarrow>
   (error + ('b, 'd, command_infos) DextIR) \<times> os_world" where
  "get_debugger_steps env ctx w =
     (case get_command_infos env ctx of
        Inl (CommandParseError fname line info src caret) \<Rightarrow>
          (Inl (DebuggerException (Message (parser_error_msg fname line info src caret))), w)
      | Inl e \<Rightarrow> (Inl e, w)
      | Inr infos \<Rightarrow>
          (let step_collection = (empty_debugger_steps ctx)\<lparr>commands := Some infos\<rparr>;
               dir = working_directory ctx;
               json_path = temp_name env dir (temp_count w);
               pickle_path = temp_name env dir (Suc (temp_count w));
               w1 = w\<lparr>files := (pickle_path, pickle_dumps env (ctx_options ctx)) #
                                (json_path, as_json env step_collection) # files w,
                       temp_count := Suc (Suc (temp_count w))\<rparr>;
               dexter_py =
                 (if isfile env (argv0 env) then argv0 env
                  else path_join env [root_directory env, ''..'', argv0 env])
           in if \<not> isfile env dexter_py then (Inl AssertionError, w1)
              else
                (let args = [sys_executable env, dexter_py, ''run-debugger-internal-'',
                             json_path, pickle_path, ''--working-directory'', dir,
                             ''--unittest=off'', ''--lint=off'',
                             ''--indent-timer-level='' @ str_int (timer_indent env + 2)];
                     (status, files') = child_process env args (files w1);
                     w2 = w1\<lparr>files := files', temp_count := Suc (temp_count w1),
                              spawned := spawned w1 @ [args]\<rparr>
                 in if status \<noteq> 0
                    then (Inl (DebuggerException (Cause (CalledProcessError status))), w2)
                    else
                      (case map_of (files w2) json_path of
                         None \<Rightarrow> (Inl (OtherError ''FileNotFoundError''), w2)
                       | Some text \<Rightarrow> (importDextIR env text, w2)))))"

text \<open>
  A sequence of discovery calls, each either through the class
  (\<^verbatim>\<open>Debuggers.potential_debuggers()\<close>, flag \<open>True\<close>) or direct
  (\<^verbatim>\<open>_get_potential_debuggers()\<close>), each with the file system as it is at that
  moment. The results are collected in order.
\<close>

definition discover ::
  "bool \<Rightarrow> file_system \<Rightarrow> py_state \<Rightarrow> (error + registry) \<times> py_state" where
  "discover via_class fs st =
     (if via_class then potential_debuggers fs st else get_potential_debuggers fs st)"

fun discover_all ::
  "(bool \<times> file_system) list \<Rightarrow> py_state \<Rightarrow> (error + registry) list \<times> py_state" where
  "discover_all [] st = ([], st)"
| "discover_all ((v, fs) # cs) st =
     (case discover v fs st of
        (r, st') \<Rightarrow> (case discover_all cs st' of (rs, st'') \<Rightarrow> (r # rs, st'')))"

text \<open>
  The class attribute is only ever set to the dict that the function attribute holds:
  a state is consistent when the class attribute is not set or both hold the same dict.
\<close>

definition consistent :: "py_state \<Rightarrow> bool" where
  "consistent st = (case potential st of None \<Rightarrow> True | Some d \<Rightarrow> cached st = Some d)"

text \<open>The state of a process in which discovery has not run.\<close>

definition fresh_state :: py_state where
  "fresh_state = \<lparr>cached = None, potential = None, next_id = 0\<rparr>"

text \<open>Concrete backends and file systems for the scenarios.\<close>

definition available_debugger :: debugger_obj where
  "available_debugger =
     \<lparr>dbg_name = ''lldb'', dbg_is_available = True,
      dbg_version = Some (''lldb 7'' @ [CHR 10] @ ''clang 7''),
      loading_error = None, loading_error_trace = None\<rparr>"

definition unavailable_debugger :: debugger_obj where
  "unavailable_debugger =
     \<lparr>dbg_name = ''Visual Studio'', dbg_is_available = False, dbg_version = None,
      loading_error = Some ''no COM'', loading_error_trace = Some [''Traceback'']\<rparr>"

definition backend_class ::
  "string \<Rightarrow> string \<Rightarrow> error + debugger_obj \<Rightarrow> debugger_class" where
  "backend_class name key ctor =
     \<lparr>cls_name = name, is_DebuggerBase_subclass = True, get_option_name = Inr key,
      construct = ctor\<rparr>"

definition lldb_class :: debugger_class where
  "lldb_class = backend_class ''LLDB'' ''lldb'' (Inr available_debugger)"

text \<open>Another implementation with the same class name and the same key.\<close>

definition lldb_lookalike_class :: debugger_class where
  "lldb_lookalike_class = backend_class ''LLDB'' ''lldb'' (Inr unavailable_debugger)"

text \<open>A class of another name that reports the key of \<open>lldb_class\<close>.\<close>

definition gdb_class :: debugger_class where
  "gdb_class = backend_class ''GDB'' ''lldb'' (Inr available_debugger)"

definition vs_class :: debugger_class where
  "vs_class = backend_class ''VisualStudio2015'' ''vs2015'' (Inr unavailable_debugger)"

text \<open>A backend whose constructor raises.\<close>

definition broken_class :: debugger_class where
  "broken_class = backend_class ''VisualStudio2015'' ''vs2015'' (Inl (OtherError ''COM failure''))"

definition one_module_fs :: "debugger_class list \<Rightarrow> file_system" where
  "one_module_fs classes =
     \<lparr>os_walk = [(''debugger'', [''__init__.py'', ''Backends.py''])],
      load_module =
        (\<lambda>d m. if d = ''debugger'' \<and> m = ''Backends'' then Inr classes else Inl ImportError)\<rparr>"

text \<open>A run environment whose command parser fails at line 12 of \<open>test.cpp\<close>.\<close>

definition failing_parser_env :: "(unit, unit) run_env" where
  "failing_parser_env =
     \<lparr>find_all_commands =
        (\<lambda>srcs. Inl (CommandParseError ''test.cpp'' 12 ''unexpected token''
                        ''DexWatch(1'' ''         ^'')),
      as_json = (\<lambda>t. ''{}''),
      importDextIR = (\<lambda>s. Inl (OtherError ''not a trace'')),
      pickle_dumps = (\<lambda>opts. ''''),
      temp_name = (\<lambda>d n. d @ ''/tmp'' @ str_nat n),
      argv0 = ''dexter.py'',
      isfile = (\<lambda>p. True),
      root_directory = ''/dexter/dex'',
      path_join = concat,
      sys_executable = ''python'',
      timer_indent = 0,
      child_process = (\<lambda>args fs. (0, fs))\<rparr>"

definition example_context :: run_context where
  "example_context =
     \<lparr>ctx_options = \<lparr>executable = ''a.out'', source_files = [''test.cpp'']\<rparr>,
      ctx_version = ''1.0'', working_directory = ''/tmp/dexter''\<rparr>"

definition empty_world :: os_world where
  "empty_world = \<lparr>files = [], temp_count = 0, spawned = []\<rparr>"

text \<open>
  Once discovery has run, the function attribute holds a dict and the class attribute is
  not set or holds the same dict.
\<close>

definition settled :: "registry \<Rightarrow> py_state \<Rightarrow> bool" where
  "settled d st = (cached st = Some d \<and> (case potential st of None \<Rightarrow> True | Some p \<Rightarrow> p = d))"

text \<open>
  The listing shows the first line of the version of an available debugger and of the
  loading error of an unavailable one: there is such a line unless the text is the empty
  string.
\<close>

definition shows_a_line :: "debugger_obj \<Rightarrow> bool" where
  "shows_a_line dbg =
     (if dbg_is_available dbg then dbg_version dbg \<noteq> Some [] else loading_error dbg \<noteq> Some [])"

text \<open>
  A step as its creator hands it over: function and location filled in, no column, the
  kind not yet assigned.
\<close>

definition fresh_step :: "string option \<Rightarrow> string \<Rightarrow> int \<Rightarrow> StepIR" where
  "fresh_step f p l =
     \<lparr>current_function = f,
      current_location = \<lparr>path = Some p, lineno = Some l, column = None\<rparr>,
      step_kind = None\<rparr>"

text \<open>The six steps of the spec's example scenario.\<close>

definition example_steps :: "StepIR list" where
  "example_steps =
     [fresh_step (Some ''main'') ''file.c'' 10,
      fresh_step (Some ''main'') ''file.c'' 10,
      fresh_step (Some ''main'') ''file.c'' 11,
      fresh_step (Some ''main'') ''file.c'' 9,
      fresh_step (Some ''helper'') ''file.c'' 20,
      fresh_step None ''file.c'' 21]"

text \<open>A trace with no steps, for the concrete scenarios.\<close>

definition empty_trace :: "string list \<Rightarrow> (unit, unit, unit) DextIR" where
  "empty_trace srcs =
     \<lparr>dexter_version = ''1.0'', executable_path = ''a.out'', source_paths = srcs,
      builder = None, debugger = None, commands = None, steps = []\<rparr>"

section \<open>Properties of the step trace\<close>

text \<open>
  The location order of the spec is exclusive: of equal, greater and less at most one
  holds of two locations.
\<close>

lemma LocIR_exclusive:
  "\<not> (LocIR_eq a b \<and> LocIR_gt a b)"
  "\<not> (LocIR_eq a b \<and> LocIR_lt a b)"
  "\<not> (LocIR_gt a b \<and> LocIR_lt a b)"
  by (auto simp add: LocIR_eq_def LocIR_gt_def LocIR_lt_def opt_lt_def
      split: option.splits if_splits)

text \<open>
  C1 (amended). A step whose function is present, appended to a trace with no step or
  after a step whose function is present and differs from its own, gets the function
  entry kind: FUNC when its path is one of the source paths, FUNC_UNKNOWN when the path
  is absent, FUNC_EXTERNAL otherwise; and it is the step appended. The comparison of
  locations plays no part.
\<close>

theorem new_step_function_entry:
  assumes "current_function step \<noteq> None"
    and "steps self = [] \<or>
         (current_function (last (steps self)) \<noteq> None \<and>
          current_function (last (steps self)) \<noteq> current_function step)"
  shows "step_kind (snd (new_step cmp self step)) =
           Some (case path (current_location step) of
                   None \<Rightarrow> FUNC_UNKNOWN
                 | Some p \<Rightarrow> if p \<in> set (source_paths self) then FUNC else FUNC_EXTERNAL)
         \<and> steps (fst (new_step cmp self step)) = steps self @ [snd (new_step cmp self step)]"
  using assms by (auto simp add: new_step_def Let_def step_kind_func_def)

theorem new_step_function_entry_witness:
  "current_function (fresh_step (Some ''main'') ''file.c'' 10) \<noteq> None \<and>
   steps (empty_trace [''file.c'']) = [] \<and>
   step_kind (snd (new_step LocIR_cmp (empty_trace [''file.c''])
                     (fresh_step (Some ''main'') ''file.c'' 10))) = Some FUNC \<and>
   current_function
     (last (steps (fst (new_step LocIR_cmp (empty_trace [''file.c''])
                          (fresh_step (Some ''main'') ''file.c'' 10))))) = Some ''main'' \<and>
   step_kind
     (snd (new_step LocIR_cmp
             (fst (new_step LocIR_cmp (empty_trace [''file.c''])
                     (fresh_step (Some ''main'') ''file.c'' 10)))
             (fresh_step (Some ''printf'') ''stdio.h'' 300))) = Some FUNC_EXTERNAL"
  using new_step_function_entry
          [of "fresh_step (Some ''main'') ''file.c'' 10" "empty_trace [''file.c'']" LocIR_cmp]
        new_step_function_entry
          [of "fresh_step (Some ''printf'') ''stdio.h'' 300"
              "fst (new_step LocIR_cmp (empty_trace [''file.c''])
                      (fresh_step (Some ''main'') ''file.c'' 10))"
              LocIR_cmp]
  by (simp add: fresh_step_def empty_trace_def new_step_def Let_def)

text \<open>
  C1 as stated fails: after a step whose function is absent, a step with function
  \<open>main\<close> in a source file has a function that differs from the previous step's, and
  yet its kind is UNKNOWN, not FUNC.
\<close>

theorem new_step_function_entry_counterexample:
  "current_function (fresh_step (Some ''main'') ''file.c'' 11) \<noteq> None \<and>
   current_function
     (last (steps (fst (new_step LocIR_cmp (empty_trace [''file.c''])
                          (fresh_step None ''file.c'' 10)))))
     \<noteq> current_function (fresh_step (Some ''main'') ''file.c'' 11) \<and>
   path (current_location (fresh_step (Some ''main'') ''file.c'' 11)) = Some ''file.c'' \<and>
   ''file.c'' \<in> set (source_paths (fst (new_step LocIR_cmp (empty_trace [''file.c''])
                                          (fresh_step None ''file.c'' 10)))) \<and>
   step_kind
     (snd (new_step LocIR_cmp
             (fst (new_step LocIR_cmp (empty_trace [''file.c''])
                     (fresh_step None ''file.c'' 10)))
             (fresh_step (Some ''main'') ''file.c'' 11))) = Some UNKNOWN"
  by (simp add: fresh_step_def empty_trace_def new_step_def Let_def)

text \<open>
  C2. A step whose function is absent, and a step whose function is present appended
  after a step whose function is absent, get the kind UNKNOWN, whatever the trace holds
  otherwise; and the step is the one appended.
\<close>

theorem new_step_unknown:
  assumes "current_function step = None \<or>
           (current_function step \<noteq> None \<and> steps self \<noteq> [] \<and>
            current_function (last (steps self)) = None)"
  shows "step_kind (snd (new_step cmp self step)) = Some UNKNOWN \<and>
         steps (fst (new_step cmp self step)) = steps self @ [snd (new_step cmp self step)]"
  using assms by (auto simp add: new_step_def Let_def)

theorem new_step_unknown_witness:
  "current_function (fresh_step None ''file.c'' 21) = None \<and>
   step_kind
     (snd (new_step LocIR_cmp (new_steps LocIR_cmp (empty_trace [''file.c'']) example_steps)
             (fresh_step None ''file.c'' 21))) = Some UNKNOWN \<and>
   current_function (fresh_step (Some ''main'') ''file.c'' 22) = Some ''main'' \<and>
   current_function
     (last (steps (new_steps LocIR_cmp (empty_trace [''file.c'']) example_steps))) = None \<and>
   step_kind
     (snd (new_step LocIR_cmp (new_steps LocIR_cmp (empty_trace [''file.c'']) example_steps)
             (fresh_step (Some ''main'') ''file.c'' 22))) = Some UNKNOWN"
  using new_step_unknown
          [of "fresh_step None ''file.c'' 21"
              "new_steps LocIR_cmp (empty_trace [''file.c'']) example_steps" LocIR_cmp]
        new_step_unknown
          [of "fresh_step (Some ''main'') ''file.c'' 22"
              "new_steps LocIR_cmp (empty_trace [''file.c'']) example_steps" LocIR_cmp]
  by (simp add: fresh_step_def example_steps_def empty_trace_def new_step_def Let_def)

text \<open>
  C3. A step whose function is present and equal to the previous step's gets SAME when
  the two locations are equal, BACKWARD when the previous location is greater and
  FORWARD when it is less; and the step appended to the trace is this step, with the
  kind assigned. The three comparisons are those of the location class: the statement
  holds for every such class in which equal, greater and less exclude one another at
  the two locations, as they do in the order of the spec (\<open>LocIR_exclusive\<close>).
\<close>

theorem new_step_same_function:
  assumes "current_function step \<noteq> None" and "steps self \<noteq> []"
    and "current_function (last (steps self)) = current_function step"
    and "\<not> (loc_eq cmp (current_location (last (steps self))) (current_location step) \<and>
             loc_gt cmp (current_location (last (steps self))) (current_location step))"
    and "\<not> (loc_eq cmp (current_location (last (steps self))) (current_location step) \<and>
             loc_lt cmp (current_location (last (steps self))) (current_location step))"
    and "\<not> (loc_gt cmp (current_location (last (steps self))) (current_location step) \<and>
             loc_lt cmp (current_location (last (steps self))) (current_location step))"
  shows "(loc_eq cmp (current_location (last (steps self))) (current_location step) \<longrightarrow>
            step_kind (snd (new_step cmp self step)) = Some SAME) \<and>
         (loc_gt cmp (current_location (last (steps self))) (current_location step) \<longrightarrow>
            step_kind (snd (new_step cmp self step)) = Some BACKWARD) \<and>
         (loc_lt cmp (current_location (last (steps self))) (current_location step) \<longrightarrow>
            step_kind (snd (new_step cmp self step)) = Some FORWARD) \<and>
         steps (fst (new_step cmp self step)) = steps self @ [snd (new_step cmp self step)]"
  using assms by (auto simp add: new_step_def Let_def)

theorem new_step_same_function_witness:
  "LocIR_eq \<lparr>path = Some ''file.c'', lineno = Some 10, column = None\<rparr>
            \<lparr>path = Some ''file.c'', lineno = Some 10, column = None\<rparr> \<and>
   step_kind
     (snd (new_step LocIR_cmp
             (fst (new_step LocIR_cmp (empty_trace [''file.c''])
                     (fresh_step (Some ''main'') ''file.c'' 10)))
             (fresh_step (Some ''main'') ''file.c'' 10))) = Some SAME \<and>
   LocIR_gt \<lparr>path = Some ''file.c'', lineno = Some 11, column = None\<rparr>
            \<lparr>path = Some ''file.c'', lineno = Some 9, column = None\<rparr> \<and>
   step_kind
     (snd (new_step LocIR_cmp
             (fst (new_step LocIR_cmp (empty_trace [''file.c''])
                     (fresh_step (Some ''main'') ''file.c'' 11)))
             (fresh_step (Some ''main'') ''file.c'' 9))) = Some BACKWARD \<and>
   LocIR_lt \<lparr>path = Some ''file.c'', lineno = Some 10, column = None\<rparr>
            \<lparr>path = Some ''file.c'', lineno = Some 11, column = None\<rparr> \<and>
   step_kind
     (snd (new_step LocIR_cmp
             (fst (new_step LocIR_cmp (empty_trace [''file.c''])
                     (fresh_step (Some ''main'') ''file.c'' 10)))
             (fresh_step (Some ''main'') ''file.c'' 11))) = Some FORWARD \<and>
   map step_kind
     (steps (fst (new_step LocIR_cmp
                    (fst (new_step LocIR_cmp (empty_trace [''file.c''])
                            (fresh_step (Some ''main'') ''file.c'' 10)))
                    (fresh_step (Some ''main'') ''file.c'' 10)))) = [Some FUNC, Some SAME] \<and>
   map step_kind
     (steps (fst (new_step LocIR_cmp
                    (fst (new_step LocIR_cmp (empty_trace [''file.c''])
                            (fresh_step (Some ''main'') ''file.c'' 11)))
                    (fresh_step (Some ''main'') ''file.c'' 9)))) = [Some FUNC, Some BACKWARD] \<and>
   map step_kind
     (steps (fst (new_step LocIR_cmp
                    (fst (new_step LocIR_cmp (empty_trace [''file.c''])
                            (fresh_step (Some ''main'') ''file.c'' 10)))
                    (fresh_step (Some ''main'') ''file.c'' 11)))) = [Some FUNC, Some FORWARD]"
  using new_step_same_function
          [of "fresh_step (Some ''main'') ''file.c'' 10"
              "fst (new_step LocIR_cmp (empty_trace [''file.c''])
                      (fresh_step (Some ''main'') ''file.c'' 10))"
              LocIR_cmp]
        new_step_same_function
          [of "fresh_step (Some ''main'') ''file.c'' 9"
              "fst (new_step LocIR_cmp (empty_trace [''file.c''])
                      (fresh_step (Some ''main'') ''file.c'' 11))"
              LocIR_cmp]
        new_step_same_function
          [of "fresh_step (Some ''main'') ''file.c'' 11"
              "fst (new_step LocIR_cmp (empty_trace [''file.c''])
                      (fresh_step (Some ''main'') ''file.c'' 10))"
              LocIR_cmp]
  by (simp add: fresh_step_def empty_trace_def new_step_def Let_def step_kind_func_def
      LocIR_cmp_def LocIR_eq_def LocIR_gt_def LocIR_lt_def opt_lt_def)

text \<open>
  C4. The example scenario: on a trace without steps whose source paths are
  \<open>file.c\<close>, the six steps get the kinds FUNC, SAME, FORWARD, BACKWARD, FUNC, UNKNOWN,
  with the location order of the spec.
\<close>

theorem example_scenario_kinds:
  "map step_kind
     (steps (new_steps LocIR_cmp (self\<lparr>source_paths := [''file.c''], steps := []\<rparr>)
               example_steps))
   = [Some FUNC, Some SAME, Some FORWARD, Some BACKWARD, Some FUNC, Some UNKNOWN]"
  by (simp add: example_steps_def fresh_step_def new_step_def step_kind_func_def Let_def
      LocIR_cmp_def LocIR_eq_def LocIR_gt_def LocIR_lt_def opt_lt_def)

text \<open>
  C9. Clearing the steps leaves no step, so that \<open>num_steps\<close> is 0, and changes no
  other field of the trace.
\<close>

theorem clear_steps_frame:
  "steps (clear_steps self) = [] \<and> num_steps (clear_steps self) = 0 \<and>
   dexter_version (clear_steps self) = dexter_version self \<and>
   executable_path (clear_steps self) = executable_path self \<and>
   source_paths (clear_steps self) = source_paths self \<and>
   builder (clear_steps self) = builder self \<and>
   debugger (clear_steps self) = debugger self \<and>
   commands (clear_steps self) = commands self \<and>
   clear_steps self = self\<lparr>steps := []\<rparr>"
  by (simp add: clear_steps_def num_steps_def)

text \<open>
  C10. A step whose function is present and equal to the previous step's, at a location
  that is neither equal to, nor less, nor greater than the previous one, is appended and
  returned exactly as it came: its kind is the one it had on entry.
\<close>

theorem new_step_incomparable:
  assumes "current_function step \<noteq> None" and "steps self \<noteq> []"
    and "current_function (last (steps self)) = current_function step"
    and "\<not> loc_eq cmp (current_location (last (steps self))) (current_location step)"
    and "\<not> loc_gt cmp (current_location (last (steps self))) (current_location step)"
    and "\<not> loc_lt cmp (current_location (last (steps self))) (current_location step)"
  shows "new_step cmp self step = (self\<lparr>steps := steps self @ [step]\<rparr>, step) \<and>
         step_kind (snd (new_step cmp self step)) = step_kind step"
  using assms by (auto simp add: new_step_def Let_def)

theorem new_step_incomparable_witness:
  "\<not> LocIR_eq \<lparr>path = Some ''file.c'', lineno = Some 10, column = None\<rparr>
              \<lparr>path = Some ''macros.h'', lineno = Some 10, column = None\<rparr> \<and>
   \<not> LocIR_gt \<lparr>path = Some ''file.c'', lineno = Some 10, column = None\<rparr>
              \<lparr>path = Some ''macros.h'', lineno = Some 10, column = None\<rparr> \<and>
   \<not> LocIR_lt \<lparr>path = Some ''file.c'', lineno = Some 10, column = None\<rparr>
              \<lparr>path = Some ''macros.h'', lineno = Some 10, column = None\<rparr> \<and>
   step_kind
     (snd (new_step LocIR_cmp
             (fst (new_step LocIR_cmp (empty_trace [''file.c''])
                     (fresh_step (Some ''main'') ''file.c'' 10)))
             (fresh_step (Some ''main'') ''macros.h'' 10))) = None \<and>
   length (steps
     (fst (new_step LocIR_cmp
             (fst (new_step LocIR_cmp (empty_trace [''file.c''])
                     (fresh_step (Some ''main'') ''file.c'' 10)))
             (fresh_step (Some ''main'') ''macros.h'' 10)))) = 2"
  using new_step_incomparable
          [of "fresh_step (Some ''main'') ''macros.h'' 10"
              "fst (new_step LocIR_cmp (empty_trace [''file.c''])
                      (fresh_step (Some ''main'') ''file.c'' 10))"
              LocIR_cmp]
  by (simp add: fresh_step_def empty_trace_def new_step_def Let_def step_kind_func_def
      LocIR_cmp_def LocIR_eq_def LocIR_gt_def LocIR_lt_def opt_lt_def)

section \<open>Properties of discovery\<close>

lemmas scenario_defs = one_module_fs_def fresh_state_def backend_class_def
  is_potential_module_def splitext_root_def available_debugger_def unavailable_debugger_def
  lldb_class_def lldb_lookalike_class_def gdb_class_def vs_class_def broken_class_def

text \<open>Each scanning loop over a concatenation runs the first part, then the second.\<close>

lemma scan_classes_append:
  "scan_classes cache (xs @ ys) =
     (case scan_classes cache xs of
        (c1, None) \<Rightarrow> scan_classes c1 ys
      | (c1, Some e) \<Rightarrow> (c1, Some e))"
  by (induction xs arbitrary: cache) (auto split: sum.splits option.splits)

lemma scan_modules_append:
  "scan_modules ld d cache (xs @ ys) =
     (case scan_modules ld d cache xs of
        (c1, None) \<Rightarrow> scan_modules ld d c1 ys
      | (c1, Some e) \<Rightarrow> (c1, Some e))"
  by (induction xs arbitrary: cache) (auto split: sum.splits option.splits prod.splits)

lemma scan_dirs_append:
  "scan_dirs ld cache (xs @ ys) =
     (case scan_dirs ld cache xs of
        (c1, None) \<Rightarrow> scan_dirs ld c1 ys
      | (c1, Some e) \<Rightarrow> (c1, Some e))"
  by (induction xs arbitrary: cache) (auto split: sum.splits option.splits prod.splits)

text \<open>
  C6 (amended). Let a first discovery reach a class \<open>c\<close> that reports the key
  \<open>key\<close>, with the dict holding the class \<open>c0\<close> under this key. When the two
  classes have the same \<^verbatim>\<open>__name__\<close>, \<open>c\<close> is skipped and the loop goes on with
  the dict unchanged. When the names differ, discovery ends there with AssertionError,
  and the function attribute keeps the dict as filled so far.
\<close>

theorem registration_collision:
  assumes "cached st = None"
    and "os_walk fs = ds1 @ (d, fnames) # ds2"
    and "scan_dirs (load_module fs) [] ds1 = (cache1, None)"
    and "map splitext_root (filter is_potential_module fnames) = ms1 @ m # ms2"
    and "scan_modules (load_module fs) d cache1 ms1 = (cache2, None)"
    and "load_module fs d m = Inr (cs1 @ c # cs2)"
    and "scan_classes cache2 cs1 = (cache3, None)"
    and "is_DebuggerBase_subclass c" and "get_option_name c = Inr key"
    and "map_of cache3 key = Some c0"
  shows "(cls_name c0 = cls_name c \<longrightarrow>
            scan_classes cache3 (c # cs2) = scan_classes cache3 cs2) \<and>
         (cls_name c0 \<noteq> cls_name c \<longrightarrow>
            get_potential_debuggers fs st =
              (Inl AssertionError,
               st\<lparr>cached := Some \<lparr>dict_id = next_id st, dict_items = cache3\<rparr>,
                  next_id := Suc (next_id st)\<rparr>))"
proof (intro conjI impI)
  assume "cls_name c0 = cls_name c"
  then show "scan_classes cache3 (c # cs2) = scan_classes cache3 cs2"
    using assms(8-10) by simp
next
  assume differ: "cls_name c0 \<noteq> cls_name c"
  have 1: "scan_classes cache2 (cs1 @ c # cs2) = (cache3, Some AssertionError)"
    using assms(7-10) differ by (simp add: scan_classes_append)
  have 2: "scan_modules (load_module fs) d cache1 (ms1 @ m # ms2) = (cache3, Some AssertionError)"
    using assms(5,6) 1 by (simp add: scan_modules_append)
  have 3: "scan_dirs (load_module fs) [] (os_walk fs) = (cache3, Some AssertionError)"
    using assms(2,3,4) 2 by (simp add: scan_dirs_append)
  show "get_potential_debuggers fs st =
          (Inl AssertionError,
           st\<lparr>cached := Some \<lparr>dict_id = next_id st, dict_items = cache3\<rparr>,
              next_id := Suc (next_id st)\<rparr>)"
    using assms(1) 3 by (simp add: get_potential_debuggers_def)
qed

theorem registration_collision_witness:
  "cls_name lldb_class \<noteq> cls_name gdb_class \<and>
   get_option_name lldb_class = get_option_name gdb_class \<and>
   fst (get_potential_debuggers (one_module_fs [lldb_class, gdb_class]) fresh_state) =
     Inl AssertionError \<and>
   cached (snd (get_potential_debuggers (one_module_fs [lldb_class, gdb_class]) fresh_state)) =
     Some \<lparr>dict_id = 0, dict_items = [(''lldb'', lldb_class)]\<rparr>"
  using registration_collision
          [where st = fresh_state and fs = "one_module_fs [lldb_class, gdb_class]"
             and ?ds1.0 = "[]" and d = "''debugger''"
             and fnames = "[''__init__.py'', ''Backends.py'']" and ?ds2.0 = "[]"
             and ?cache1.0 = "[]" and ?ms1.0 = "[]" and m = "''Backends''" and ?ms2.0 = "[]"
             and ?cache2.0 = "[]" and ?cs1.0 = "[lldb_class]" and c = gdb_class and ?cs2.0 = "[]"
             and ?cache3.0 = "[(''lldb'', lldb_class)]" and key = "''lldb''" and ?c0.0 = lldb_class]
  by (simp add: scenario_defs)

text \<open>
  C6 as stated fails: two different implementations with the same class name under one
  key raise nothing; discovery returns, and the dict holds the first of them.
\<close>

theorem registration_collision_counterexample:
  "lldb_class \<noteq> lldb_lookalike_class \<and>
   get_option_name lldb_class = Inr ''lldb'' \<and>
   get_option_name lldb_lookalike_class = Inr ''lldb'' \<and>
   fst (get_potential_debuggers (one_module_fs [lldb_class, lldb_lookalike_class]) fresh_state) =
     Inr \<lparr>dict_id = 0, dict_items = [(''lldb'', lldb_class)]\<rparr>"
  by (simp add: get_potential_debuggers_def scenario_defs Let_def)

text \<open>Memoization.\<close>

lemma discover_settled:
  assumes "settled d st"
  shows "fst (discover v fs st) = Inr d \<and> settled d (snd (discover v fs st)) \<and>
         next_id (snd (discover v fs st)) = next_id st"
  using assms
  by (auto simp add: settled_def discover_def potential_debuggers_def
      get_potential_debuggers_def split: option.splits)

lemma discover_all_settled:
  assumes "settled d st"
  shows "fst (discover_all cs st) = map (\<lambda>c. Inr d) cs \<and> settled d (snd (discover_all cs st)) \<and>
         next_id (snd (discover_all cs st)) = next_id st"
  using assms
proof (induction cs arbitrary: st)
  case Nil
  then show ?case by simp
next
  case (Cons c cs)
  obtain v fs where c: "c = (v, fs)" by (cases c)
  from discover_settled[OF Cons.prems, of v fs]
  have 1: "fst (discover v fs st) = Inr d" and 2: "settled d (snd (discover v fs st))"
    and 3: "next_id (snd (discover v fs st)) = next_id st" by auto
  from Cons.IH[OF 2] 1 3 show ?case
    by (simp add: c case_prod_beta)
qed

lemma first_discover_settles:
  assumes "consistent st"
  shows "\<exists>d. settled d (snd (discover v fs st)) \<and>
             (case fst (discover v fs st) of Inr d1 \<Rightarrow> d1 = d | Inl e \<Rightarrow> True)"
proof (cases "cached st")
  case None
  with assms have p: "potential st = None" by (simp add: consistent_def split: option.splits)
  show ?thesis using None p
    by (cases v)
       (auto simp add: settled_def discover_def potential_debuggers_def
          get_potential_debuggers_def Let_def split: prod.splits option.splits)
next
  case (Some d)
  with assms have "settled d st" by (auto simp add: consistent_def settled_def split: option.splits)
  from discover_settled[OF this, of v fs] show ?thesis by auto
qed

text \<open>
  C7. Discovery is memoized. After a first call of either accessor, from a consistent
  state, the function attribute holds a dict \<open>d\<close>; if that call returned, it
  returned \<open>d\<close>; and every later call of either accessor, whatever the file system
  then holds, returns this same dict (same identity, same items), creates no new dict and
  leaves the function attribute as it is: nothing is scanned again.
\<close>

theorem discovery_memoized:
  assumes "consistent st"
  shows "\<exists>d. cached (snd (discover v fs st)) = Some d \<and>
             (case fst (discover v fs st) of Inr d1 \<Rightarrow> d1 = d | Inl e \<Rightarrow> True) \<and>
             (\<forall>cs. fst (discover_all cs (snd (discover v fs st))) = map (\<lambda>c. Inr d) cs \<and>
                   cached (snd (discover_all cs (snd (discover v fs st)))) = Some d \<and>
                   next_id (snd (discover_all cs (snd (discover v fs st)))) =
                     next_id (snd (discover v fs st)))"
proof -
  from first_discover_settles[OF assms, of v fs] obtain d where
    s: "settled d (snd (discover v fs st))" and
    r: "(case fst (discover v fs st) of Inr d1 \<Rightarrow> d1 = d | Inl e \<Rightarrow> True)" by blast
  have "cached (snd (discover v fs st)) = Some d" using s by (simp add: settled_def)
  moreover have "\<forall>cs. fst (discover_all cs (snd (discover v fs st))) = map (\<lambda>c. Inr d) cs \<and>
                   cached (snd (discover_all cs (snd (discover v fs st)))) = Some d \<and>
                   next_id (snd (discover_all cs (snd (discover v fs st)))) =
                     next_id (snd (discover v fs st))"
    using discover_all_settled[OF s] by (simp add: settled_def)
  ultimately show ?thesis using r by blast
qed

theorem discovery_memoized_witness:
  "consistent fresh_state \<and>
   fst (discover True (one_module_fs [lldb_class]) fresh_state) =
     Inr \<lparr>dict_id = 0, dict_items = [(''lldb'', lldb_class)]\<rparr> \<and>
   fst (discover_all [(True, one_module_fs []), (False, one_module_fs [vs_class])]
          (snd (discover True (one_module_fs [lldb_class]) fresh_state))) =
     [Inr \<lparr>dict_id = 0, dict_items = [(''lldb'', lldb_class)]\<rparr>,
      Inr \<lparr>dict_id = 0, dict_items = [(''lldb'', lldb_class)]\<rparr>]"
  using discovery_memoized [of fresh_state True "one_module_fs [lldb_class]"]
  by (simp add: consistent_def discover_def potential_debuggers_def get_potential_debuggers_def
      Let_def scenario_defs)

section \<open>Properties of the listing\<close>

lemma potential_debuggers_stable:
  "potential st = Some d \<Longrightarrow> potential_debuggers fs st = (Inr d, st)"
  by (simp add: potential_debuggers_def)

lemma potential_debuggers_sets:
  "potential_debuggers fs st = (Inr d, st') \<Longrightarrow> potential st' = Some d"
  by (auto simp add: potential_debuggers_def split: option.splits prod.splits sum.splits)

lemma load_stable:
  "potential st = Some d \<Longrightarrow>
   load fs key st =
     ((case map_of (dict_items d) key of None \<Rightarrow> Inl (KeyError key) | Some c \<Rightarrow> construct c), st)"
  by (simp add: load_def potential_debuggers_stable split: option.splits)

lemma populate_loop_ok:
  assumes "potential st = Some d"
    and "\<forall>k\<in>set keys. \<exists>c dbg. map_of (dict_items d) k = Some c \<and> construct c = Inr dbg \<and> P dbg"
  shows "\<exists>entries. populate_loop fs keys st = (Inr entries, st) \<and>
           list_all2 (\<lambda>k e. \<exists>c dbg. map_of (dict_items d) k = Some c \<and>
                        construct c = Inr dbg \<and> P dbg \<and> e = loaded_debugger k dbg) keys entries"
  using assms
proof (induction keys)
  case Nil
  then show ?case by simp
next
  case (Cons k keys)
  from Cons.prems(2) obtain c dbg where
    c: "map_of (dict_items d) k = Some c" and dbg: "construct c = Inr dbg" and p: "P dbg" by auto
  from Cons.IH[OF Cons.prems(1)] Cons.prems(2) obtain entries where
    e: "populate_loop fs keys st = (Inr entries, st)" and
    r: "list_all2 (\<lambda>k e. \<exists>c dbg. map_of (dict_items d) k = Some c \<and>
                        construct c = Inr dbg \<and> P dbg \<and> e = loaded_debugger k dbg) keys entries"
    by auto
  have "populate_loop fs (k # keys) st = (Inr (loaded_debugger k dbg # entries), st)"
    using e c dbg by (simp add: load_stable[OF Cons.prems(1)])
  with r c dbg p show ?case by simp
qed

lemma populate_loop_raises:
  assumes "potential st = Some d"
    and "k \<in> set keys" and "map_of (dict_items d) k = Some c" and "construct c = Inl e"
  shows "\<exists>e' k' c'. populate_loop fs keys st = (Inl e', st) \<and> k' \<in> set keys \<and>
           (map_of (dict_items d) k' = None \<and> e' = KeyError k' \<or>
            map_of (dict_items d) k' = Some c' \<and> construct c' = Inl e')"
  using assms(2)
proof (induction keys)
  case Nil
  then show ?case by simp
next
  case (Cons a keys)
  show ?case
  proof (cases "map_of (dict_items d) a")
    case None
    then have "populate_loop fs (a # keys) st = (Inl (KeyError a), st)"
      by (simp add: load_stable[OF assms(1)])
    with None show ?thesis by auto
  next
    case (Some ca)
    show ?thesis
    proof (cases "construct ca")
      case (Inl ea)
      then have "populate_loop fs (a # keys) st = (Inl ea, st)"
        using Some by (simp add: load_stable[OF assms(1)])
      with Some Inl show ?thesis by auto
    next
      case (Inr dbg)
      with Some assms(3,4) have "a \<noteq> k" by auto
      with Cons.prems have "k \<in> set keys" by simp
      from Cons.IH[OF this] obtain e' k' c' where
        1: "populate_loop fs keys st = (Inl e', st)" and 2: "k' \<in> set keys" and
        3: "map_of (dict_items d) k' = None \<and> e' = KeyError k' \<or>
            map_of (dict_items d) k' = Some c' \<and> construct c' = Inl e'" by blast
      have "populate_loop fs (a # keys) st = (Inl e', st)"
        using 1 Some Inr by (simp add: load_stable[OF assms(1)])
      with 2 3 show ?thesis by auto
    qed
  qed
qed

lemma splitlines_from_empty:
  "splitlines_from b cur s = [] \<longleftrightarrow>
     cur = [] \<and> (s = [] \<or> (b \<and> (\<exists>c. s = [c] \<and> of_char c = (10::nat))))"
  by (induction s arbitrary: b cur) auto

lemma splitlines_empty: "splitlines s = [] \<longleftrightarrow> s = []"
  by (simp add: splitlines_def splitlines_from_empty)

lemma list_entry_loaded:
  assumes "shows_a_line dbg"
  shows "\<exists>msg. list_entry verbose mo mn (loaded_debugger k dbg) = Inr msg"
  using assms
  by (auto simp add: shows_a_line_def list_entry_def loaded_debugger_def Let_def splitlines_empty
      split: option.splits list.splits if_splits)

lemma list_entries_loaded:
  assumes "list_all2 (\<lambda>k e. \<exists>c dbg. map_of its k = Some c \<and> construct c = Inr dbg \<and>
             shows_a_line dbg \<and> e = loaded_debugger k dbg) keys entries"
  shows "\<exists>msgs. list_entries verbose mo mn entries = Inr msgs"
  using assms
proof (induction keys entries rule: list_all2_induct)
  case Nil
  then show ?case by simp
next
  case (Cons k keys e entries)
  then obtain dbg where "shows_a_line dbg" and "e = loaded_debugger k dbg" by auto
  from list_entry_loaded[OF this(1), of verbose mo mn k] this(2) Cons.IH
  show ?case by auto
qed

lemma registered_keys:
  assumes "\<forall>(k, c)\<in>set its. \<exists>dbg. construct c = Inr dbg \<and> P dbg"
  shows "\<forall>k\<in>set (sort (map fst its)). \<exists>c dbg. map_of its k = Some c \<and> construct c = Inr dbg \<and> P dbg"
proof
  fix k assume "k \<in> set (sort (map fst its))"
  then have "k \<in> fst ` set its" by simp
  then obtain c where c: "map_of its k = Some c"
    by (metis domD dom_map_of_conv_image_fst)
  then have "(k, c) \<in> set its" by (rule map_of_SomeD)
  with assms c show "\<exists>c dbg. map_of its k = Some c \<and> construct c = Inr dbg \<and> P dbg" by auto
qed

lemma option_names_of_entries:
  assumes "list_all2 (\<lambda>k e. \<exists>c dbg. map_of its k = Some c \<and> construct c = Inr dbg \<and> P dbg \<and>
             e = loaded_debugger k dbg) keys entries"
  shows "map option_name entries = keys"
  using assms
  by (induction keys entries rule: list_all2_induct) (auto simp add: loaded_debugger_def)

lemma sorted_keys: "sort [''vs2015'', ''lldb''] = [''lldb'', ''vs2015'']"
  by code_simp

text \<open>
  C5 (amended). Let discovery have returned the dict \<open>d\<close>. When the constructor of
  every registered class returns, the snapshot (\<^verbatim>\<open>_populate_debugger_cache\<close>) returns
  one entry per key, in sorted key order, each built from the debugger constructed for
  its key: for a debugger that reports itself unavailable this is an entry that is not
  available and carries the lines of the loading error and the trace. When moreover there is at least one key and no
  shown text is the empty string, \<^verbatim>\<open>list\<close> completes and writes its text. But when
  the constructor of a registered class raises, the snapshot and \<^verbatim>\<open>list\<close> raise the
  exception of such a constructor: nothing catches it.
\<close>

theorem listing_snapshot:
  assumes disc: "potential_debuggers fs st = (Inr d, st')"
  shows "((\<forall>(k, c)\<in>set (dict_items d). \<exists>dbg. construct c = Inr dbg) \<longrightarrow>
           (\<exists>entries. populate_debugger_cache fs st = (Inr entries, st') \<and>
              map option_name entries = sort (map fst (dict_items d)) \<and>
              list_all2
                (\<lambda>k e. \<exists>c dbg. map_of (dict_items d) k = Some c \<and> construct c = Inr dbg \<and>
                   e = loaded_debugger k dbg \<and> is_available e = dbg_is_available dbg \<and>
                   (dbg_is_available dbg \<longrightarrow>
                      version e =
                        Some (case dbg_version dbg of None \<Rightarrow> [[]] | Some v \<Rightarrow> splitlines v)) \<and>
                   (\<not> dbg_is_available dbg \<longrightarrow>
                      error e =
                        Some (case loading_error dbg of None \<Rightarrow> [[]] | Some m \<Rightarrow> splitlines m) \<and>
                      error_trace e = Some (loading_error_trace dbg)))
                (sort (map fst (dict_items d))) entries)) \<and>
         ((\<forall>(k, c)\<in>set (dict_items d). \<exists>dbg. construct c = Inr dbg \<and> shows_a_line dbg) \<and>
          dict_items d \<noteq> [] \<longrightarrow>
           (\<exists>text. list_debuggers fs verbose st = (Inr text, st'))) \<and>
         (\<forall>k c e. map_of (dict_items d) k = Some c \<and> construct c = Inl e \<longrightarrow>
            (\<exists>e' k' c'. map_of (dict_items d) k' = Some c' \<and> construct c' = Inl e' \<and>
               populate_debugger_cache fs st = (Inl e', st') \<and>
               list_debuggers fs verbose st = (Inl e', st')))"
proof -
  let ?keys = "sort (map fst (dict_items d))"
  have p: "potential st' = Some d" using disc by (rule potential_debuggers_sets)
  have pop: "populate_debugger_cache fs st = populate_loop fs ?keys st'"
    using disc by (simp add: populate_debugger_cache_def)
  have A: "\<exists>entries. populate_debugger_cache fs st = (Inr entries, st') \<and>
              map option_name entries = ?keys \<and>
              list_all2
                (\<lambda>k e. \<exists>c dbg. map_of (dict_items d) k = Some c \<and> construct c = Inr dbg \<and>
                   e = loaded_debugger k dbg \<and> is_available e = dbg_is_available dbg \<and>
                   (dbg_is_available dbg \<longrightarrow>
                      version e =
                        Some (case dbg_version dbg of None \<Rightarrow> [[]] | Some v \<Rightarrow> splitlines v)) \<and>
                   (\<not> dbg_is_available dbg \<longrightarrow>
                      error e =
                        Some (case loading_error dbg of None \<Rightarrow> [[]] | Some m \<Rightarrow> splitlines m) \<and>
                      error_trace e = Some (loading_error_trace dbg)))
                ?keys entries"
    if ok: "\<forall>(k, c)\<in>set (dict_items d). \<exists>dbg. construct c = Inr dbg"
  proof -
    from ok have "\<forall>(k, c)\<in>set (dict_items d). \<exists>dbg. construct c = Inr dbg \<and> True" by simp
    from populate_loop_ok[OF p registered_keys[OF this], of fs]
    obtain entries where 1: "populate_loop fs ?keys st' = (Inr entries, st')" and
      2: "list_all2 (\<lambda>k e. \<exists>c dbg. map_of (dict_items d) k = Some c \<and>
                           construct c = Inr dbg \<and> True \<and> e = loaded_debugger k dbg) ?keys entries"
      by blast
    from option_names_of_entries[OF 2] have 3: "map option_name entries = ?keys" .
    from 2 have "list_all2
                (\<lambda>k e. \<exists>c dbg. map_of (dict_items d) k = Some c \<and> construct c = Inr dbg \<and>
                   e = loaded_debugger k dbg \<and> is_available e = dbg_is_available dbg \<and>
                   (dbg_is_available dbg \<longrightarrow>
                      version e =
                        Some (case dbg_version dbg of None \<Rightarrow> [[]] | Some v \<Rightarrow> splitlines v)) \<and>
                   (\<not> dbg_is_available dbg \<longrightarrow>
                      error e =
                        Some (case loading_error dbg of None \<Rightarrow> [[]] | Some m \<Rightarrow> splitlines m) \<and>
                      error_trace e = Some (loading_error_trace dbg)))
                ?keys entries"
      by (rule list_all2_mono) (auto simp add: loaded_debugger_def)
    with 1 3 pop show ?thesis by auto
  qed
  have B: "\<exists>text. list_debuggers fs verbose st = (Inr text, st')"
    if ok: "\<forall>(k, c)\<in>set (dict_items d). \<exists>dbg. construct c = Inr dbg \<and> shows_a_line dbg"
      and ne: "dict_items d \<noteq> []"
  proof -
    from populate_loop_ok[OF p registered_keys[OF ok], of fs]
    obtain entries where 1: "populate_loop fs ?keys st' = (Inr entries, st')" and
      2: "list_all2 (\<lambda>k e. \<exists>c dbg. map_of (dict_items d) k = Some c \<and>
                 construct c = Inr dbg \<and> shows_a_line dbg \<and> e = loaded_debugger k dbg) ?keys entries"
      by blast
    from list_all2_lengthD[OF 2] have "length entries = length (dict_items d)" by simp
    with ne have 3: "entries \<noteq> []" by auto
    from list_entries_loaded[OF 2] obtain msgs where
      "list_entries verbose
         (foldr max (map (\<lambda>d. length (option_name d)) entries) 0)
         (foldr max (map (\<lambda>d. length (full_name d)) entries) 0) entries = Inr msgs"
      by blast
    with 1 3 pop show ?thesis by (simp add: list_debuggers_def Let_def)
  qed
  have C: "\<exists>e' k' c'. map_of (dict_items d) k' = Some c' \<and> construct c' = Inl e' \<and>
               populate_debugger_cache fs st = (Inl e', st') \<and>
               list_debuggers fs verbose st = (Inl e', st')"
    if m: "map_of (dict_items d) k = Some c" and r: "construct c = Inl e" for k c e
  proof -
    from m have "(k, c) \<in> set (dict_items d)" by (rule map_of_SomeD)
    then have k: "k \<in> set ?keys" by force
    from populate_loop_raises[OF p k m r, of fs] obtain e' k' c' where
      1: "populate_loop fs ?keys st' = (Inl e', st')" and 2: "k' \<in> set ?keys" and
      3: "map_of (dict_items d) k' = None \<and> e' = KeyError k' \<or>
          map_of (dict_items d) k' = Some c' \<and> construct c' = Inl e'" by blast
    from 2 have "k' \<in> fst ` set (dict_items d)" by simp
    then have "map_of (dict_items d) k' \<noteq> None"
      by (metis domIff dom_map_of_conv_image_fst)
    with 3 have 4: "map_of (dict_items d) k' = Some c' \<and> construct c' = Inl e'" by simp
    from 1 pop have "list_debuggers fs verbose st = (Inl e', st')"
      by (simp add: list_debuggers_def)
    with 1 4 pop show ?thesis by auto
  qed
  from A B C show ?thesis by blast
qed

theorem listing_snapshot_witness:
  "fst (potential_debuggers (one_module_fs [vs_class, lldb_class]) fresh_state) =
     Inr \<lparr>dict_id = 0, dict_items = [(''vs2015'', vs_class), (''lldb'', lldb_class)]\<rparr> \<and>
   construct vs_class = Inr unavailable_debugger \<and>
   construct lldb_class = Inr available_debugger \<and>
   fst (populate_debugger_cache (one_module_fs [vs_class, lldb_class]) fresh_state) =
     Inr [loaded_debugger ''lldb'' available_debugger,
          loaded_debugger ''vs2015'' unavailable_debugger] \<and>
   \<not> is_available (loaded_debugger ''vs2015'' unavailable_debugger) \<and>
   error (loaded_debugger ''vs2015'' unavailable_debugger) = Some [''no COM''] \<and>
   error_trace (loaded_debugger ''vs2015'' unavailable_debugger) = Some (Some [''Traceback'']) \<and>
   fst (populate_debugger_cache (one_module_fs [broken_class, lldb_class]) fresh_state) =
     Inl (OtherError ''COM failure'')"
proof -
  let ?fs = "one_module_fs [vs_class, lldb_class]"
  let ?d = "\<lparr>dict_id = 0, dict_items = [(''vs2015'', vs_class), (''lldb'', lldb_class)]\<rparr>"
  let ?st = "\<lparr>cached = Some ?d, potential = Some ?d, next_id = 1\<rparr>"
  have h: "potential_debuggers ?fs fresh_state = (Inr ?d, ?st)"
    by (simp add: potential_debuggers_def get_potential_debuggers_def Let_def scenario_defs)
  have c: "construct vs_class = Inr unavailable_debugger"
    "construct lldb_class = Inr available_debugger"
    by (simp_all add: scenario_defs)
  have ok: "\<forall>(k, c)\<in>set (dict_items ?d). \<exists>dbg. construct c = Inr dbg"
    using c by simp
  from listing_snapshot[OF h, of False] ok obtain entries where
    1: "populate_debugger_cache ?fs fresh_state = (Inr entries, ?st)" and
    2: "list_all2
          (\<lambda>k e. \<exists>c dbg. map_of (dict_items ?d) k = Some c \<and> construct c = Inr dbg \<and>
             e = loaded_debugger k dbg \<and> is_available e = dbg_is_available dbg \<and>
             (dbg_is_available dbg \<longrightarrow>
                version e =
                  Some (case dbg_version dbg of None \<Rightarrow> [[]] | Some v \<Rightarrow> splitlines v)) \<and>
             (\<not> dbg_is_available dbg \<longrightarrow>
                error e =
                  Some (case loading_error dbg of None \<Rightarrow> [[]] | Some m \<Rightarrow> splitlines m) \<and>
                error_trace e = Some (loading_error_trace dbg)))
          (sort (map fst (dict_items ?d))) entries"
    by blast
  from 2 have "entries = [loaded_debugger ''lldb'' available_debugger,
          loaded_debugger ''vs2015'' unavailable_debugger]"
    using c by (auto simp add: sorted_keys list_all2_Cons1)
  with 1 have 3: "fst (populate_debugger_cache ?fs fresh_state) =
     Inr [loaded_debugger ''lldb'' available_debugger,
          loaded_debugger ''vs2015'' unavailable_debugger]" by simp
  have 4: "\<not> is_available (loaded_debugger ''vs2015'' unavailable_debugger) \<and>
   error (loaded_debugger ''vs2015'' unavailable_debugger) = Some [''no COM''] \<and>
   error_trace (loaded_debugger ''vs2015'' unavailable_debugger) = Some (Some [''Traceback''])"
    by code_simp
  have 5: "fst (populate_debugger_cache (one_module_fs [broken_class, lldb_class]) fresh_state) =
     Inl (OtherError ''COM failure'')"
    by (simp add: populate_debugger_cache_def load_def potential_debuggers_def
      get_potential_debuggers_def Let_def scenario_defs sorted_keys)
  from h c 3 4 5 show ?thesis by simp
qed

text \<open>
  C5 as stated fails: with a backend whose constructor raises, the snapshot and the
  listing raise that exception and return no entry at all.
\<close>

theorem listing_snapshot_counterexample:
  "fst (populate_debugger_cache (one_module_fs [broken_class, lldb_class]) fresh_state) =
     Inl (OtherError ''COM failure'') \<and>
   fst (list_debuggers (one_module_fs [broken_class, lldb_class]) False fresh_state) =
     Inl (OtherError ''COM failure'')"
  by (simp add: list_debuggers_def populate_debugger_cache_def load_def potential_debuggers_def
      get_potential_debuggers_def Let_def scenario_defs)

section \<open>Properties of the run\<close>

text \<open>
  C8. When the command parser raises CommandParseError, the run raises one
  DebuggerException whose message holds the file name, the line number, the message
  of the parser, the source line and the caret line; the run returns no trace, and the
  world is as before: no file written, no child process started.
\<close>

theorem parse_failure_is_fatal:
  assumes "find_all_commands env (source_files (ctx_options ctx)) =
             Inl (CommandParseError fname line info src caret)"
  shows "get_debugger_steps env ctx w =
           (Inl (DebuggerException (Message
              (''parser error: <d>'' @ fname @ ''('' @ str_int line @ ''):</> '' @ info @
               [CHR 10] @ src @ [CHR 10] @ caret @ [CHR 10]))), w)"
  using assms by (simp add: get_debugger_steps_def get_command_infos_def parser_error_msg_def)

theorem parse_failure_is_fatal_witness:
  "find_all_commands failing_parser_env (source_files (ctx_options example_context)) =
     Inl (CommandParseError ''test.cpp'' 12 ''unexpected token'' ''DexWatch(1'' ''         ^'') \<and>
   get_debugger_steps failing_parser_env example_context empty_world =
     (Inl (DebuggerException (Message
        (''parser error: <d>test.cpp(12):</> unexpected token'' @ [CHR 10] @ ''DexWatch(1'' @
         [CHR 10] @ ''         ^'' @ [CHR 10]))), empty_world)"
proof -
  have h: "find_all_commands failing_parser_env (source_files (ctx_options example_context)) =
     Inl (CommandParseError ''test.cpp'' 12 ''unexpected token'' ''DexWatch(1'' ''         ^'')"
    by (simp add: failing_parser_env_def)
  have m: "str_int 12 = ''12''" by code_simp
  show ?thesis using h parse_failure_is_fatal[OF h, of empty_world] m by simp
qed

end
